theory Spec2Isabelle
  imports Main "HOL-Library.AList"
begin

section \<open>Strings\<close>

text \<open>
  A JavaScript string is modelled by the list of bytes of its UTF-8 encoding
  (\<^typ>\<open>string\<close>).  Every literal the handlers compare against or cut off
  (\<open>yn:\<close>, \<open>use:\<close>, \<open>cancel\<close>, ...) is ASCII, so \<open>startsWith\<close>,
  \<open>slice(n)\<close> after such a literal, \<open>===\<close> and concatenation act on the bytes
  as they act on the UTF-16 code units of the source.  The emoji of the messages are
  written out as their bytes.
\<close>

definition CHECK_MARK :: string where
  "CHECK_MARK = [CHR 0xE2, CHR 0x9C, CHR 0x85]"

definition CROSS_MARK :: string where
  "CROSS_MARK = [CHR 0xE2, CHR 0x9D, CHR 0x8C]"

definition PLUS_SIGN :: string where
  "PLUS_SIGN = [CHR 0xE2, CHR 0x9E, CHR 0x95]"

definition CALENDAR :: string where
  "CALENDAR = [CHR 0xF0, CHR 0x9F, CHR 0x93, CHR 0x85]"

definition BAR_CHART :: string where
  "BAR_CHART = [CHR 0xF0, CHR 0x9F, CHR 0x93, CHR 0x8A]"

definition TWO_PEOPLE :: string where
  "TWO_PEOPLE = [CHR 0xF0, CHR 0x9F, CHR 0x91, CHR 0xA5]"

definition NEXT_TRACK :: string where
  "NEXT_TRACK = [CHR 0xE2, CHR 0x8F, CHR 0xAD, CHR 0xEF, CHR 0xB8, CHR 0x8F]"

definition PENCIL :: string where
  "PENCIL = [CHR 0xE2, CHR 0x9C, CHR 0x8F, CHR 0xEF, CHR 0xB8, CHR 0x8F]"

definition MEMO :: string where
  "MEMO = [CHR 0xF0, CHR 0x9F, CHR 0x93, CHR 0x9D]"

definition EYES :: string where
  "EYES = [CHR 0xF0, CHR 0x9F, CHR 0x91, CHR 0x80]"

definition NEWLINE :: string where
  "NEWLINE = [CHR 0x0A]"

definition DOUBLE_QUOTE :: string where
  "DOUBLE_QUOTE = [CHR 0x22]"

text \<open>\<open>s.startsWith(p)\<close>.\<close>

definition startsWith :: "string \<Rightarrow> string \<Rightarrow> bool" where
  "startsWith s p = (take (length p) s = p)"

text \<open>\<open>s.slice(n)\<close> for a non-negative \<open>n\<close>.\<close>

definition slice :: "string \<Rightarrow> nat \<Rightarrow> string" where
  "slice s n = drop n s"

text \<open>\<open>xs.join(sep)\<close>.\<close>

fun join :: "string list \<Rightarrow> string \<Rightarrow> string" where
  "join [] sep = []"
| "join [x] sep = x"
| "join (x # y # ys) sep = x @ sep @ join (y # ys) sep"

text \<open>The decimal numeral of a non-negative integer, as a template literal prints it.\<close>

definition digitChar :: "nat \<Rightarrow> char" where
  "digitChar d = char_of (48 + d)"

fun showNat :: "nat \<Rightarrow> string" where
  "showNat n = (if n < 10 then [digitChar n] else showNat (n div 10) @ [digitChar (n mod 10)])"

declare showNat.simps [simp del]

section \<open>Callback data prefixes and inline keyboards\<close>

datatype CallbackPrefix = YES_NO | COLUMN | POLL_INTENT | POLL_OPTION

fun prefixOf :: "CallbackPrefix \<Rightarrow> string" where
  "prefixOf YES_NO = ''yn:''"
| "prefixOf COLUMN = ''col:''"
| "prefixOf POLL_INTENT = ''pi:''"
| "prefixOf POLL_OPTION = ''po:''"

text \<open>
  The template literal \<open>`${CallbackPrefix.P}${payload}`\<close> with which every keyboard
  builds the callback data of a button.
\<close>

definition encode :: "CallbackPrefix \<Rightarrow> string \<Rightarrow> string" where
  "encode p payload = prefixOf p @ payload"

text \<open>
  grammY's \<open>InlineKeyboard\<close>: the rows of buttons, starting with one empty row.
  \<open>text\<close> appends a callback button to the last row (on a keyboard without rows,
  which the constructor never yields, there is no last row and the button is
  dropped), \<open>row\<close> opens a new row.
\<close>

record button =
  label :: string
  callback_data :: string

type_synonym InlineKeyboard = "button list list"

definition newInlineKeyboard :: InlineKeyboard where
  "newInlineKeyboard = [[]]"

definition text_button :: "string \<Rightarrow> string \<Rightarrow> InlineKeyboard \<Rightarrow> InlineKeyboard" where
  "text_button l d kb =
     (if kb = [] then kb
      else butlast kb @ [last kb @ [\<lparr>label = l, callback_data = d\<rparr>]])"

definition row :: "InlineKeyboard \<Rightarrow> InlineKeyboard" where
  "row kb = kb @ [[]]"

text \<open>The buttons of a keyboard, row by row: the choices it offers.\<close>

definition buttons :: "InlineKeyboard \<Rightarrow> button list" where
  "buttons kb = concat kb"

record column_match =
  match_column :: string
  match_date :: string

definition yesNoKeyboard :: "string \<Rightarrow> string \<Rightarrow> InlineKeyboard" where
  "yesNoKeyboard yesData noData =
     text_button (CROSS_MARK @ '' No'') (encode YES_NO noData)
       (text_button (CHECK_MARK @ '' Yes'') (encode YES_NO yesData) newInlineKeyboard)"

definition columnConfirmationKeyboard :: "string \<Rightarrow> string \<Rightarrow> InlineKeyboard" where
  "columnConfirmationKeyboard currentColumn nextColumn =
     text_button (PLUS_SIGN @ '' Create '' @ nextColumn) (encode COLUMN (''new:'' @ nextColumn))
       (text_button (CHECK_MARK @ '' Use '' @ currentColumn)
          (encode COLUMN (''use:'' @ currentColumn)) newInlineKeyboard)"

definition newColumnChoiceKeyboard :: "string \<Rightarrow> InlineKeyboard" where
  "newColumnChoiceKeyboard col =
     text_button (CROSS_MARK @ '' Cancel'') (encode COLUMN ''cancel'')
       (text_button (CHECK_MARK @ '' Create '' @ col) (encode COLUMN (''create:'' @ col))
          newInlineKeyboard)"

text \<open>
  The \<open>forEach\<close> of \<open>columnSelectionKeyboard\<close>: \<open>n\<close> is \<open>matches.length\<close>,
  \<open>i\<close> the index of the head of the remaining matches.
\<close>

fun columnSelectionLoop ::
  "nat \<Rightarrow> nat \<Rightarrow> column_match list \<Rightarrow> InlineKeyboard \<Rightarrow> InlineKeyboard" where
  "columnSelectionLoop n i [] kb = kb"
| "columnSelectionLoop n i (m # ms) kb =
     (let kb1 = text_button
                  (showNat (i + 1) @ ''. '' @ match_column m @ '': '' @ match_date m)
                  (encode COLUMN (''select:'' @ match_column m)) kb;
          kb2 = (if int i < int n - 1 then row kb1 else kb1)
      in columnSelectionLoop n (i + 1) ms kb2)"

definition columnSelectionKeyboard :: "column_match list \<Rightarrow> InlineKeyboard" where
  "columnSelectionKeyboard matches =
     columnSelectionLoop (length matches) 0 matches newInlineKeyboard"

text \<open>\<open>recognizedCount\<close> is the size of a map.\<close>

definition playerCountConfirmationKeyboard :: "nat \<Rightarrow> InlineKeyboard" where
  "playerCountConfirmationKeyboard recognizedCount =
     text_button (PENCIL @ '' No, specify count'') (encode YES_NO ''playercount:no'')
       (text_button (CHECK_MARK @ '' Yes, '' @ showNat recognizedCount @ '' players'')
          (encode YES_NO ''playercount:yes'') newInlineKeyboard)"

definition overrideConfirmationKeyboard :: InlineKeyboard where
  "overrideConfirmationKeyboard =
     text_button (NEXT_TRACK @ '' Skip existing'') (encode YES_NO ''override:no'')
       (text_button (CHECK_MARK @ '' Overwrite'') (encode YES_NO ''override:yes'')
          newInlineKeyboard)"

definition pollIntentKeyboard :: InlineKeyboard where
  "pollIntentKeyboard =
     text_button (EYES @ '' View voters'') (encode POLL_INTENT ''view'')
       (text_button (MEMO @ '' Update sheet'') (encode POLL_INTENT ''update'')
          newInlineKeyboard)"

text \<open>
  \<open>Map<number, Set<string>>\<close>: the votes of a poll, from the index of an option to
  its voters in the order in which the set received them (\<open>Array.from\<close> of a set
  lists its elements in that order, \<open>size\<close> is their number).
\<close>

type_synonym votes_map = "int \<Rightarrow> string list option"

text \<open>The \<open>forEach\<close> of \<open>pollOptionKeyboard\<close>.\<close>

fun pollOptionLoop ::
  "votes_map \<Rightarrow> nat \<Rightarrow> nat \<Rightarrow> string list \<Rightarrow> InlineKeyboard \<Rightarrow> InlineKeyboard" where
  "pollOptionLoop vs n i [] kb = kb"
| "pollOptionLoop vs n i (opt # opts) kb =
     (let voterCount = (case vs (int i) of None \<Rightarrow> 0 | Some voters \<Rightarrow> length voters);
          kb1 = text_button
                  (showNat (i + 1) @ ''. '' @ opt @ '' ('' @ showNat voterCount @ '')'')
                  (encode POLL_OPTION (showNat i)) kb;
          kb2 = (if int i < int n - 1 then row kb1 else kb1)
      in pollOptionLoop vs n (i + 1) opts kb2)"

definition pollOptionKeyboard :: "string list \<Rightarrow> votes_map \<Rightarrow> InlineKeyboard" where
  "pollOptionKeyboard opts vs = pollOptionLoop vs (length opts) 0 opts newInlineKeyboard"

section \<open>Session, context and collaborators\<close>

datatype SessionState =
    idle
  | awaiting_column_choice
  | awaiting_date_name
  | awaiting_player_count
  | awaiting_override_choice
  | awaiting_poll_option_selection

record existing_value =
  nickname :: string
  existingValue :: string

text \<open>
  Modelled from the spec: the declaration of the session type (\<open>../session\<close>) is not
  among the sources.  The fields are those of the data model of the specification,
  and \<open>column\<close>, which \<open>handleOverrideChoice\<close> reads.  An absent (\<open>undefined\<close>)
  field is \<open>None\<close>.
\<close>

record SessionData =
  state :: SessionState
  usernames :: "string list option"
  targetColumn :: "string option"
  column :: "string option"
  isNewColumn :: bool
  columnMatches :: "column_match list option"
  playerCount :: "int option"
  nicknameRowsEntries :: "(string \<times> int) list option"
  existingValuesEntries :: "existing_value list option"
  pollId :: "string option"
  pollQuestion :: "string option"

text \<open>
  What a handler does to the outside, in the order in which it does it: the calls of
  the chat transport and of the sheet.  \<open>CommitAttendance\<close> is the write of the
  attendance cells, which only the collaborators of \<open>../workflow\<close> issue.
\<close>

datatype effect =
    AnswerCallbackQuery
  | EditMessageText string "InlineKeyboard option"
  | Reply string
  | WriteColumnMetadata string "string option" "string option" "int option"
  | CommitAttendance string "(string \<times> int) list"

text \<open>
  The context \<open>ctx\<close> of a handler: the session it mutates and the effects issued so
  far.  The calls of the chat transport return normally.
\<close>

record Context =
  session :: SessionData
  effects :: "effect list"

datatype error = Error string

record PollData =
  question :: string
  options :: "string list"
  votes :: votes_map

text \<open>
  The functions and the constant that the handlers import from modules that are not
  among the sources (\<open>../bot-helpers\<close>, \<open>../constants\<close>, \<open>../sheets\<close>,
  \<open>../workflow\<close>) are parameters of the model.  A collaborator that receives \<open>ctx\<close>
  returns the context as it leaves it; one that is called inside \<open>try\<close> returns
  also the error it threw, if any.  \<open>initSheetsClient\<close> and \<open>writeColumnMetadata\<close> do
  not receive \<open>ctx\<close>: only their outcome is a parameter.
\<close>

record Env =
  getPollDataOrError :: "Context \<Rightarrow> PollData option \<times> Context"
  buildPollOptionsText :: "PollData \<Rightarrow> string"
  handleApiError :: "Context \<Rightarrow> error \<Rightarrow> string \<Rightarrow> bool option \<Rightarrow> Context"
  ERR_SESSION_DATA_LOST :: string
  initSheetsClient :: "error option"
  writeColumnMetadata ::
    "string \<Rightarrow> string option \<Rightarrow> string option \<Rightarrow> int option \<Rightarrow> error option"
  checkOverridesAndWrite :: "Context \<Rightarrow> (string \<times> int) list \<Rightarrow> Context \<times> error option"
  proceedWithMetadataCollection :: "Context \<Rightarrow> Context"
  startColumnDetectionFlow :: "Context \<Rightarrow> Context"
  writeZerosAndRespond ::
    "Context \<Rightarrow> (string \<times> int) list \<Rightarrow> string \<Rightarrow> bool \<Rightarrow> string list \<Rightarrow> Context \<times> error option"

definition answerCallbackQuery :: "Context \<Rightarrow> Context" where
  "answerCallbackQuery ctx = ctx\<lparr>effects := effects ctx @ [AnswerCallbackQuery]\<rparr>"

definition editMessageText :: "Context \<Rightarrow> string \<Rightarrow> InlineKeyboard option \<Rightarrow> Context" where
  "editMessageText ctx txt reply_markup =
     ctx\<lparr>effects := effects ctx @ [EditMessageText txt reply_markup]\<rparr>"

text \<open>
  Modelled from the spec: \<open>resetSession\<close> (\<open>../session\<close>) is not among the sources.
  The specification has the session "explicitly reset to its initial empty form":
  state \<open>idle\<close>, every nullable field absent.
\<close>

definition initialSession :: SessionData where
  "initialSession =
     \<lparr>state = idle, usernames = None, targetColumn = None, column = None,
      isNewColumn = False, columnMatches = None, playerCount = None,
      nicknameRowsEntries = None, existingValuesEntries = None,
      pollId = None, pollQuestion = None\<rparr>"

definition resetSession :: "SessionData \<Rightarrow> SessionData" where
  "resetSession s = initialSession"

text \<open>
  Modelled from the spec: \<open>replyErrorAndReset\<close> (\<open>../bot-helpers\<close>) is not among the
  sources.  The specification has such an error "reported to the user ... and the
  session is fully reset": the message is sent as a reply and the session reset.
\<close>

definition replyErrorAndReset :: "Context \<Rightarrow> string \<Rightarrow> Context" where
  "replyErrorAndReset ctx message =
     ctx\<lparr>session := resetSession (session ctx), effects := effects ctx @ [Reply message]\<rparr>"

text \<open>
  A string-valued field in a condition: \<open>undefined\<close> and the empty string are falsy.
  \<open>truthy\<close> keeps a truthy value and turns a falsy one into \<open>None\<close>; \<open>orElse a b\<close> is
  \<open>a || b\<close>.
\<close>

definition truthy :: "string option \<Rightarrow> string option" where
  "truthy x = (case x of None \<Rightarrow> None | Some s \<Rightarrow> if s = [] then None else Some s)"

definition orElse :: "string option \<Rightarrow> string option \<Rightarrow> string option" where
  "orElse a b = (case truthy a of Some s \<Rightarrow> Some s | None \<Rightarrow> b)"

text \<open>
  \<open>new Map(entries)\<close>: the entries in the order of the first occurrence of their key,
  each key with the value of its last occurrence.
\<close>

definition newMap :: "(string \<times> int) list \<Rightarrow> (string \<times> int) list" where
  "newMap entries = foldl (\<lambda>m (k, v). AList.update k v m) [] entries"

section \<open>\<open>parseInt(data, 10)\<close>\<close>

text \<open>
  The white space and line terminators that \<open>parseInt\<close> skips at the start of its
  argument, each as its UTF-8 bytes: U+0009 to U+000D, U+0020, U+00A0, U+1680,
  U+2000 to U+200A, U+2028, U+2029, U+202F, U+205F, U+3000 and U+FEFF.
\<close>

definition StrWhiteSpaceChar :: "string list" where
  "StrWhiteSpaceChar =
     [[CHR 0x09], [CHR 0x0A], [CHR 0x0B], [CHR 0x0C], [CHR 0x0D], [CHR 0x20],
      [CHR 0xC2, CHR 0xA0],
      [CHR 0xE1, CHR 0x9A, CHR 0x80],
      [CHR 0xE2, CHR 0x80, CHR 0x80], [CHR 0xE2, CHR 0x80, CHR 0x81],
      [CHR 0xE2, CHR 0x80, CHR 0x82], [CHR 0xE2, CHR 0x80, CHR 0x83],
      [CHR 0xE2, CHR 0x80, CHR 0x84], [CHR 0xE2, CHR 0x80, CHR 0x85],
      [CHR 0xE2, CHR 0x80, CHR 0x86], [CHR 0xE2, CHR 0x80, CHR 0x87],
      [CHR 0xE2, CHR 0x80, CHR 0x88], [CHR 0xE2, CHR 0x80, CHR 0x89],
      [CHR 0xE2, CHR 0x80, CHR 0x8A],
      [CHR 0xE2, CHR 0x80, CHR 0xA8], [CHR 0xE2, CHR 0x80, CHR 0xA9],
      [CHR 0xE2, CHR 0x80, CHR 0xAF],
      [CHR 0xE2, CHR 0x81, CHR 0x9F],
      [CHR 0xE3, CHR 0x80, CHR 0x80],
      [CHR 0xEF, CHR 0xBB, CHR 0xBF]]"

function trimStart :: "string \<Rightarrow> string" where
  "trimStart s =
     (case List.find (startsWith s) StrWhiteSpaceChar of
        None \<Rightarrow> s
      | Some w \<Rightarrow> trimStart (slice s (length w)))"
  by pat_completeness auto
termination
proof (relation "measure length")
  show "wf (measure length)" by simp
next
  fix s w :: string
  assume "List.find (startsWith s) StrWhiteSpaceChar = Some w"
  then have w: "w \<in> set StrWhiteSpaceChar" and p: "startsWith s w"
    by (auto simp: find_Some_iff)
  from w have "w \<noteq> []"
    by (auto simp: StrWhiteSpaceChar_def)
  with p have "s \<noteq> []"
    by (auto simp: startsWith_def)
  with \<open>w \<noteq> []\<close> show "(slice s (length w), s) \<in> measure length"
    by (simp add: slice_def)
qed

declare trimStart.simps [simp del]

definition isDigit :: "char \<Rightarrow> bool" where
  "isDigit c = (48 \<le> (of_char c :: nat) \<and> (of_char c :: nat) \<le> 57)"

definition digitsValue :: "string \<Rightarrow> int" where
  "digitsValue ds = foldl (\<lambda>a c. 10 * a + (int (of_char c) - 48)) 0 ds"

text \<open>
  \<open>parseInt(s, 10)\<close>: leading white space is skipped, one sign is read, then the
  longest run of decimal digits; what follows them is ignored.  \<open>None\<close> is \<open>NaN\<close>
  (no digit).  The result is the integer itself: the handler only compares it with
  0 and with \<open>options.length\<close>, and uses it as an index once it is below
  \<open>options.length\<close>, where the floating-point number of the source is exact;
  rounding a longer numeral does not move it across these bounds, and \<open>-0\<close> indexes
  like \<open>0\<close>.
\<close>

definition parseInt10 :: "string \<Rightarrow> int option" where
  "parseInt10 s =
     (let t = trimStart s;
          negative = startsWith t ''-'';
          u = (if startsWith t ''-'' \<or> startsWith t ''+'' then slice t 1 else t);
          ds = takeWhile isDigit u
      in if ds = [] then None
         else Some (if negative then - digitsValue ds else digitsValue ds))"

section \<open>The callback query handlers\<close>

text \<open>The \<open>skippedNicknames\<close> of \<open>handleOverrideChoice\<close>: the nicknames that the write is to skip.\<close>

definition skippedNicknames :: "bool \<Rightarrow> existing_value list option \<Rightarrow> string list" where
  "skippedNicknames overwrite evs =
     (if \<not> overwrite
      then (case evs of Some entries \<Rightarrow> map nickname entries | None \<Rightarrow> [])
      else [])"

definition handlePlayerCountYes :: "Env \<Rightarrow> Context \<Rightarrow> Context" where
  "handlePlayerCountYes env ctx =
     (case (truthy (targetColumn (session ctx)), nicknameRowsEntries (session ctx)) of
        (Some col, Some entries) \<Rightarrow>
          (let nicknameRows = newMap entries;
               recognizedCount = length nicknameRows;
               ctx1 = ctx\<lparr>session := (session ctx)\<lparr>playerCount := Some (int recognizedCount)\<rparr>\<rparr>;
               ctx2 = editMessageText ctx1
                        (CHECK_MARK @ '' Player count: '' @ showNat recognizedCount) None;
               failed = (\<lambda>c e. handleApiError env c e
                          ''writing player count or checking overrides'' (Some False))
           in case initSheetsClient env of
                Some e \<Rightarrow> failed ctx2 e
              | None \<Rightarrow>
                 (let ctx3 = ctx2\<lparr>effects := effects ctx2 @
                               [WriteColumnMetadata col None None (playerCount (session ctx2))]\<rparr>
                  in case writeColumnMetadata env col None None (playerCount (session ctx2)) of
                       Some e \<Rightarrow> failed ctx3 e
                     | None \<Rightarrow>
                        (case checkOverridesAndWrite env ctx3 nicknameRows of
                           (ctx4, Some e) \<Rightarrow> failed ctx4 e
                         | (ctx4, None) \<Rightarrow> ctx4)))
      | _ \<Rightarrow> replyErrorAndReset ctx (ERR_SESSION_DATA_LOST env))"

definition handleOverrideChoice :: "Env \<Rightarrow> Context \<Rightarrow> bool \<Rightarrow> Context" where
  "handleOverrideChoice env ctx overwrite =
     (case (truthy (orElse (column (session ctx)) (targetColumn (session ctx))),
            nicknameRowsEntries (session ctx)) of
        (Some columnToUse, Some entries) \<Rightarrow>
          (let nicknameRows = newMap entries;
               skipped = skippedNicknames overwrite (existingValuesEntries (session ctx));
               ctx1 = editMessageText ctx
                        (if overwrite then CHECK_MARK @ '' Will overwrite existing values''
                         else NEXT_TRACK @ '' Will skip existing values'') None
           in case writeZerosAndRespond env ctx1 nicknameRows columnToUse overwrite skipped of
                (ctx2, Some e) \<Rightarrow> handleApiError env ctx2 e ''updating sheet'' None
              | (ctx2, None) \<Rightarrow> ctx2)
      | _ \<Rightarrow> replyErrorAndReset ctx
               (CROSS_MARK @ '' Error: session data lost. Start over with /update''))"

text \<open>The handler registered for \<open>^yn:\<close>; \<open>data\<close> is the callback data after the prefix.\<close>

definition yesNoHandler :: "Env \<Rightarrow> string \<Rightarrow> Context \<Rightarrow> Context" where
  "yesNoHandler env data ctx0 =
     (let ctx = answerCallbackQuery ctx0
      in if data = ''playercount:yes'' then handlePlayerCountYes env ctx
         else if data = ''playercount:no'' then
           editMessageText (ctx\<lparr>session := (session ctx)\<lparr>state := awaiting_player_count\<rparr>\<rparr>)
             ''How many players attended the match?'' None
         else if data = ''override:yes'' then handleOverrideChoice env ctx True
         else if data = ''override:no'' then handleOverrideChoice env ctx False
         else ctx)"

text \<open>The handler registered for \<open>^col:\<close>.\<close>

definition columnHandler :: "Env \<Rightarrow> string \<Rightarrow> Context \<Rightarrow> Context" where
  "columnHandler env data ctx0 =
     (let ctx = answerCallbackQuery ctx0
      in if startsWith data ''use:'' then
           (let col = slice data 4;
                ctx1 = ctx\<lparr>session := (session ctx)\<lparr>targetColumn := Some col, isNewColumn := False\<rparr>\<rparr>
            in proceedWithMetadataCollection env
                 (editMessageText ctx1 (CHECK_MARK @ '' Using column '' @ col) None))
         else if startsWith data ''new:'' then
           (let col = slice data 4;
                ctx1 = ctx\<lparr>session := (session ctx)\<lparr>targetColumn := Some col, isNewColumn := True,
                                                    state := awaiting_date_name\<rparr>\<rparr>
            in editMessageText ctx1
                 (CALENDAR @ '' Please provide the date name for column '' @ col @ '' (row 1):'')
                 None)
         else if startsWith data ''create:'' then
           (let col = slice data 7;
                ctx1 = ctx\<lparr>session := (session ctx)\<lparr>targetColumn := Some col, isNewColumn := True,
                                                    state := awaiting_date_name\<rparr>\<rparr>
            in editMessageText ctx1
                 (CALENDAR @ '' Please provide the date name for column '' @ col @ '' (row 1):'')
                 None)
         else if data = ''cancel'' then
           editMessageText (ctx\<lparr>session := resetSession (session ctx)\<rparr>)
             (CHECK_MARK @ '' Operation cancelled. Use /update to start again.'') None
         else if startsWith data ''select:'' then
           (let col = slice data 7;
                ctx1 = ctx\<lparr>session := (session ctx)\<lparr>targetColumn := Some col, isNewColumn := False,
                                                    columnMatches := None\<rparr>\<rparr>
            in proceedWithMetadataCollection env
                 (editMessageText ctx1 (CHECK_MARK @ '' Selected column '' @ col) None))
         else ctx)"

text \<open>The \<open>forEach\<close> of the \<open>view\<close> branch, which appends one line per option.\<close>

fun viewLoop :: "votes_map \<Rightarrow> nat \<Rightarrow> string list \<Rightarrow> string \<Rightarrow> string" where
  "viewLoop vs i [] response = response"
| "viewLoop vs i (opt # opts) response =
     (let voters = (case vs (int i) of None \<Rightarrow> [] | Some v \<Rightarrow> v);
          voterList = join voters '' ''
      in viewLoop vs (i + 1) opts
           (response @ showNat (i + 1) @ ''. '' @ opt @ '': '' @
            (if voterList = [] then ''(no votes)'' else voterList) @ NEWLINE))"

text \<open>The handler registered for \<open>^pi:\<close>.\<close>

definition pollIntentHandler :: "Env \<Rightarrow> string \<Rightarrow> Context \<Rightarrow> Context" where
  "pollIntentHandler env data ctx0 =
     (let ctx = answerCallbackQuery ctx0
      in if data = ''update'' then
           (case getPollDataOrError env ctx of
              (None, ctx1) \<Rightarrow> ctx1
            | (Some pollData, ctx1) \<Rightarrow>
                editMessageText
                  (ctx1\<lparr>session := (session ctx1)\<lparr>state := awaiting_poll_option_selection\<rparr>\<rparr>)
                  (''Which option contains the attending players?'' @ NEWLINE @ NEWLINE @
                   buildPollOptionsText env pollData)
                  (Some (pollOptionKeyboard (options pollData) (votes pollData))))
         else if data = ''view'' then
           (case getPollDataOrError env ctx of
              (None, ctx1) \<Rightarrow> ctx1
            | (Some pollData, ctx1) \<Rightarrow>
                (let response = viewLoop (votes pollData) 0 (options pollData)
                                  (BAR_CHART @ '' Poll: '' @ DOUBLE_QUOTE @ question pollData @
                                   DOUBLE_QUOTE @ NEWLINE @ NEWLINE);
                     ctx2 = editMessageText ctx1 response None
                 in ctx2\<lparr>session := resetSession (session ctx2)\<rparr>))
         else ctx)"

text \<open>The handler registered for \<open>^po:\<close>.\<close>

definition pollOptionHandler :: "Env \<Rightarrow> string \<Rightarrow> Context \<Rightarrow> Context" where
  "pollOptionHandler env data ctx0 =
     (let optionIndex = parseInt10 data;
          ctx = answerCallbackQuery ctx0
      in case optionIndex of
           None \<Rightarrow> editMessageText ctx (CROSS_MARK @ '' Invalid option.'') None
         | Some i \<Rightarrow>
            (case getPollDataOrError env ctx of
               (None, ctx1) \<Rightarrow> ctx1
             | (Some pollData, ctx1) \<Rightarrow>
                 if i < 0 \<or> i \<ge> int (length (options pollData)) then
                   editMessageText ctx1
                     (CROSS_MARK @ '' Invalid option number. Please choose between 1 and '' @
                      showNat (length (options pollData)) @ ''.'') None
                 else
                   (let voters = (case votes pollData i of None \<Rightarrow> [] | Some v \<Rightarrow> v);
                        names = voters
                    in if length names = 0 then
                         replyErrorAndReset ctx1 (CROSS_MARK @ '' No voters found for this option.'')
                       else
                         (let ctx2 = ctx1\<lparr>session := (session ctx1)
                                       \<lparr>usernames := Some names, pollId := None,
                                        pollQuestion := None\<rparr>\<rparr>;
                              ctx3 = editMessageText ctx2
                                       (CHECK_MARK @ '' Selected option: '' @ DOUBLE_QUOTE @
                                        options pollData ! nat i @ DOUBLE_QUOTE @ NEWLINE @
                                        TWO_PEOPLE @ '' Attending players: '' @ join names '' '')
                                       None
                          in startColumnDetectionFlow env ctx3))))"

text \<open>
  Routing: the bot tries the four handlers in the order of their registration; the
  trigger \<open>new RegExp(`^${prefix}`)\<close> matches the callback data that start with the
  prefix, and the handler cuts the prefix off with \<open>slice(prefix.length)\<close>.
\<close>

definition decode :: "string \<Rightarrow> (CallbackPrefix \<times> string) option" where
  "decode raw =
     (if startsWith raw (prefixOf YES_NO) then
        Some (YES_NO, slice raw (length (prefixOf YES_NO)))
      else if startsWith raw (prefixOf COLUMN) then
        Some (COLUMN, slice raw (length (prefixOf COLUMN)))
      else if startsWith raw (prefixOf POLL_INTENT) then
        Some (POLL_INTENT, slice raw (length (prefixOf POLL_INTENT)))
      else if startsWith raw (prefixOf POLL_OPTION) then
        Some (POLL_OPTION, slice raw (length (prefixOf POLL_OPTION)))
      else None)"

text \<open>
  The bot after \<open>registerCallbackHandlers\<close>, on a callback query whose data are
  \<open>raw\<close>.  A query that no trigger matches passes through untouched.
\<close>

definition registerCallbackHandlers :: "Env \<Rightarrow> string \<Rightarrow> Context \<Rightarrow> Context" where
  "registerCallbackHandlers env raw ctx =
     (case decode raw of
        Some (YES_NO, data) \<Rightarrow> yesNoHandler env data ctx
      | Some (COLUMN, data) \<Rightarrow> columnHandler env data ctx
      | Some (POLL_INTENT, data) \<Rightarrow> pollIntentHandler env data ctx
      | Some (POLL_OPTION, data) \<Rightarrow> pollOptionHandler env data ctx
      | None \<Rightarrow> ctx)"

section \<open>Concrete inputs\<close>

text \<open>
  An environment on which the handlers can be run: the poll fetch returns the given
  poll data and leaves the context alone, the sheet calls succeed, the write of the
  attendance is recorded as an effect with the rows that are not skipped, column
  detection moves the session to \<open>awaiting_column_choice\<close>.
\<close>

definition testEnv :: "PollData option \<Rightarrow> Env" where
  "testEnv pd =
     \<lparr>getPollDataOrError = (\<lambda>ctx. (pd, ctx)),
      buildPollOptionsText = (\<lambda>p. join (options p) NEWLINE),
      handleApiError = (\<lambda>ctx e description reset. ctx\<lparr>effects := effects ctx @ [Reply description]\<rparr>),
      ERR_SESSION_DATA_LOST = ''session data lost'',
      initSheetsClient = None,
      writeColumnMetadata = (\<lambda>col dateName x count. None),
      checkOverridesAndWrite = (\<lambda>ctx rows. (ctx, None)),
      proceedWithMetadataCollection = (\<lambda>ctx. ctx),
      startColumnDetectionFlow =
        (\<lambda>ctx. ctx\<lparr>session := (session ctx)\<lparr>state := awaiting_column_choice\<rparr>\<rparr>),
      writeZerosAndRespond =
        (\<lambda>ctx rows col overwrite skipped.
           (ctx\<lparr>effects := effects ctx @
                   [CommitAttendance col (filter (\<lambda>(k, v). k \<notin> set skipped) rows)]\<rparr>,
            None))\<rparr>"

definition sessionIn :: "SessionState \<Rightarrow> SessionData" where
  "sessionIn st = initialSession\<lparr>state := st\<rparr>"

definition freshContext :: "SessionData \<Rightarrow> Context" where
  "freshContext s = \<lparr>session = s, effects = []\<rparr>"

text \<open>Scenarios A, B and C of the specification.\<close>

definition pollA :: PollData where
  "pollA = \<lparr>question = ''Match?'', options = [''Team A'', ''Team B''],
            votes = [0 \<mapsto> [''alice'', ''bob'']]\<rparr>"

definition pollB :: PollData where
  "pollB = \<lparr>question = ''Match?'', options = [''Team A''], votes = Map.empty\<rparr>"

definition pollSession :: SessionData where
  "pollSession = (sessionIn awaiting_poll_option_selection)
                   \<lparr>pollId := Some ''42'', pollQuestion := Some ''Match?''\<rparr>"

text \<open>Scenario D: an override decision with an existing value for \<open>alice\<close>.\<close>

definition overrideSession :: SessionData where
  "overrideSession = (sessionIn awaiting_override_choice)
     \<lparr>targetColumn := Some ''C'',
      nicknameRowsEntries := Some [(''alice'', 3), (''bob'', 4)],
      existingValuesEntries := Some [\<lparr>nickname = ''alice'', existingValue = ''1''\<rparr>]\<rparr>"

text \<open>A session that holds candidates of a disambiguation.\<close>

definition twoMatches :: "column_match list" where
  "twoMatches = [\<lparr>match_column = ''B'', match_date = ''01.05''\<rparr>,
                 \<lparr>match_column = ''C'', match_date = ''08.05''\<rparr>]"

definition choiceSession :: SessionData where
  "choiceSession = (sessionIn awaiting_column_choice)\<lparr>columnMatches := Some twoMatches\<rparr>"

text \<open>A session whose \<open>column\<close> is set and whose \<open>targetColumn\<close> is absent.\<close>

definition columnOnlySession :: SessionData where
  "columnOnlySession = (sessionIn awaiting_override_choice)
     \<lparr>column := Some ''B'', nicknameRowsEntries := Some [(''alice'', 3)]\<rparr>"

text \<open>A session that has the rows of the nicknames and no column at all.\<close>

definition noColumnSession :: SessionData where
  "noColumnSession = (sessionIn awaiting_override_choice)
     \<lparr>nicknameRowsEntries := Some [(''alice'', 3)]\<rparr>"

section \<open>Auxiliary facts\<close>

lemma startsWith_append [simp]: "startsWith (p @ s) p"
  by (simp add: startsWith_def)

lemma slice_append [simp]: "slice (p @ s) (length p) = s"
  by (simp add: slice_def)

lemma buttons_newInlineKeyboard [simp]: "buttons newInlineKeyboard = []"
  by (simp add: buttons_def newInlineKeyboard_def)

lemma newInlineKeyboard_rows [simp]: "newInlineKeyboard \<noteq> []"
  by (simp add: newInlineKeyboard_def)

lemma buttons_row [simp]: "buttons (row kb) = buttons kb"
  by (simp add: buttons_def row_def)

lemma row_rows [simp]: "row kb \<noteq> []"
  by (simp add: row_def)

lemma text_button_rows [simp]: "kb \<noteq> [] \<Longrightarrow> text_button l d kb \<noteq> []"
  by (simp add: text_button_def)

lemma buttons_text_button [simp]:
  assumes "kb \<noteq> []"
  shows "buttons (text_button l d kb) = buttons kb @ [\<lparr>label = l, callback_data = d\<rparr>]"
proof -
  from assms have "concat kb = concat (butlast kb) @ last kb"
    by (metis append_butlast_last_id concat_append concat.simps append_Nil2)
  with assms show ?thesis by (simp add: buttons_def text_button_def)
qed

lemma buttons_columnSelectionLoop:
  "kb \<noteq> [] \<Longrightarrow>
   buttons (columnSelectionLoop n i ms kb) =
     buttons kb @
     map (\<lambda>(j, m). \<lparr>label = showNat (j + 1) @ ''. '' @ match_column m @ '': '' @ match_date m,
                     callback_data = encode COLUMN (''select:'' @ match_column m)\<rparr>)
       (enumerate i ms)"
  by (induction ms arbitrary: i kb) (simp_all add: Let_def)

lemma callback_data_enumerate:
  "map (callback_data \<circ> (\<lambda>(j, m). \<lparr>label = L j m, callback_data = D m\<rparr>)) (enumerate i ms) =
     map D ms"
  by (induction ms arbitrary: i) simp_all

lemma parseInt10_abc: "parseInt10 ''abc'' = None"
  by (simp add: parseInt10_def trimStart.simps StrWhiteSpaceChar_def startsWith_def slice_def
      isDigit_def)

lemma parseInt10_5: "parseInt10 ''5'' = Some 5"
  by (simp add: parseInt10_def trimStart.simps StrWhiteSpaceChar_def startsWith_def slice_def
      isDigit_def digitsValue_def)

lemma parseInt10_0: "parseInt10 ''0'' = Some 0"
  by (simp add: parseInt10_def trimStart.simps StrWhiteSpaceChar_def startsWith_def slice_def
      isDigit_def digitsValue_def)

lemma showNat_2: "showNat 2 = ''2''"
  by code_simp

section \<open>The claims\<close>

text \<open>
  C1.  When the session has a column to write to and the rows of the nicknames,
  \<open>handleOverrideChoice\<close> hands \<open>writeZerosAndRespond\<close> the empty list of skipped
  nicknames if \<open>overwrite\<close> is true, and, if it is false, the nicknames of the
  session's \<open>existingValuesEntries\<close> in their order (the empty list when the field
  is absent).
\<close>

theorem override_skipped_nicknames:
  assumes "truthy (orElse (column (session ctx)) (targetColumn (session ctx))) = Some col"
    and "nicknameRowsEntries (session ctx) = Some entries"
  shows
    "handleOverrideChoice env ctx True =
       (case writeZerosAndRespond env
               (editMessageText ctx (CHECK_MARK @ '' Will overwrite existing values'') None)
               (newMap entries) col True [] of
          (ctx2, Some e) \<Rightarrow> handleApiError env ctx2 e ''updating sheet'' None
        | (ctx2, None) \<Rightarrow> ctx2) \<and>
     handleOverrideChoice env ctx False =
       (case writeZerosAndRespond env
               (editMessageText ctx (NEXT_TRACK @ '' Will skip existing values'') None)
               (newMap entries) col False
               (case existingValuesEntries (session ctx) of
                  None \<Rightarrow> []
                | Some evs \<Rightarrow> map nickname evs) of
          (ctx2, Some e) \<Rightarrow> handleApiError env ctx2 e ''updating sheet'' None
        | (ctx2, None) \<Rightarrow> ctx2)"
  using assms by (simp add: handleOverrideChoice_def skippedNicknames_def)

theorem override_skipped_nicknames_witness:
  "truthy (orElse (column (session (freshContext overrideSession)))
                  (targetColumn (session (freshContext overrideSession)))) = Some ''C'' \<and>
   nicknameRowsEntries (session (freshContext overrideSession)) =
     Some [(''alice'', 3), (''bob'', 4)] \<and>
   handleOverrideChoice (testEnv None) (freshContext overrideSession) True =
     (freshContext overrideSession)
       \<lparr>effects := [EditMessageText (CHECK_MARK @ '' Will overwrite existing values'') None,
                    CommitAttendance ''C'' [(''alice'', 3), (''bob'', 4)]]\<rparr> \<and>
   handleOverrideChoice (testEnv None) (freshContext overrideSession) False =
     (freshContext overrideSession)
       \<lparr>effects := [EditMessageText (NEXT_TRACK @ '' Will skip existing values'') None,
                    CommitAttendance ''C'' [(''bob'', 4)]]\<rparr>"
  using override_skipped_nicknames
    [of "freshContext overrideSession" "''C''" "[(''alice'', 3), (''bob'', 4)]" "testEnv None"]
  by (simp add: freshContext_def overrideSession_def sessionIn_def initialSession_def
      truthy_def orElse_def testEnv_def editMessageText_def newMap_def
      )

text \<open>
  C2, as stated, fails.  For two candidates \<open>columnSelectionKeyboard\<close> offers two
  choices, both of them \<open>select:\<close>, and no cancel; for no candidate
  \<open>newColumnChoiceKeyboard\<close> offers two choices, create and cancel.
\<close>

theorem column_keyboards_counterexample:
  "length twoMatches = 2 \<and>
   map callback_data (buttons (columnSelectionKeyboard twoMatches)) =
     [''col:select:B'', ''col:select:C''] \<and>
   length (buttons (columnSelectionKeyboard twoMatches)) \<noteq> length twoMatches + 1 \<and>
   map callback_data (buttons (newColumnChoiceKeyboard ''B'')) =
     [''col:create:B'', ''col:cancel''] \<and>
   length (buttons (newColumnChoiceKeyboard ''B'')) \<noteq> 0 + 1"
  by (simp add: columnSelectionKeyboard_def twoMatches_def newColumnChoiceKeyboard_def
      encode_def)

text \<open>
  C2, as amended.  \<open>columnSelectionKeyboard\<close> offers exactly one choice per
  candidate, numbered from 1 and in the order of the candidates, each with the
  callback data \<open>col:select:\<close> followed by the candidate's column, and nothing
  else.  \<open>newColumnChoiceKeyboard\<close> offers two choices, create and cancel;
  \<open>columnConfirmationKeyboard\<close> offers two, use and create the next column.
\<close>

theorem column_keyboards:
  "buttons (columnSelectionKeyboard matches) =
     map (\<lambda>(j, m). \<lparr>label = showNat (j + 1) @ ''. '' @ match_column m @ '': '' @ match_date m,
                     callback_data = encode COLUMN (''select:'' @ match_column m)\<rparr>)
       (enumerate 0 matches) \<and>
   length (buttons (columnSelectionKeyboard matches)) = length matches \<and>
   map callback_data (buttons (columnSelectionKeyboard matches)) =
     map (\<lambda>m. encode COLUMN (''select:'' @ match_column m)) matches \<and>
   map callback_data (buttons (newColumnChoiceKeyboard col)) =
     [encode COLUMN (''create:'' @ col), encode COLUMN ''cancel''] \<and>
   length (buttons (newColumnChoiceKeyboard col)) = 2 \<and>
   length (buttons (columnConfirmationKeyboard col nextColumn)) = 2 \<and>
   map callback_data (buttons (columnConfirmationKeyboard col nextColumn)) =
     [encode COLUMN (''use:'' @ col), encode COLUMN (''new:'' @ nextColumn)]"
  by (simp add: columnSelectionKeyboard_def buttons_columnSelectionLoop callback_data_enumerate
      newColumnChoiceKeyboard_def columnConfirmationKeyboard_def)

text \<open>
  C3.  For each of the four prefixes and every payload, the callback data built by
  putting the prefix before the payload are routed to the handler of that prefix,
  which cuts off exactly the prefix: decoding returns the payload unchanged.
\<close>

theorem decode_encode:
  "decode (encode p payload) = Some (p, payload) \<and>
   slice (encode p payload) (length (prefixOf p)) = payload"
  by (cases p) (simp_all add: decode_def encode_def startsWith_def slice_def)

text \<open>
  C4.  A payload that \<open>parseInt\<close> does not read as a number is answered with the
  generic message before anything else happens, and the session stays as it was.
  When the payload is a number and the poll data have been fetched, an index below 0
  or not below \<open>options.length\<close> is answered with the message that names the range
  from 1 to \<open>options.length\<close>, and the handler leaves the session as the fetch
  returned it.
\<close>

theorem poll_option_validation:
  "(parseInt10 data = None \<longrightarrow>
      pollOptionHandler env data ctx =
        ctx\<lparr>effects := effects ctx @
              [AnswerCallbackQuery, EditMessageText (CROSS_MARK @ '' Invalid option.'') None]\<rparr> \<and>
      session (pollOptionHandler env data ctx) = session ctx) \<and>
   (parseInt10 data = Some i \<and>
    getPollDataOrError env (answerCallbackQuery ctx) = (Some pollData, ctx1) \<and>
    (i < 0 \<or> int (length (options pollData)) \<le> i) \<longrightarrow>
      pollOptionHandler env data ctx =
        ctx1\<lparr>effects := effects ctx1 @
              [EditMessageText
                 (CROSS_MARK @ '' Invalid option number. Please choose between 1 and '' @
                  showNat (length (options pollData)) @ ''.'') None]\<rparr> \<and>
      session (pollOptionHandler env data ctx) = session ctx1)"
  by (auto simp add: pollOptionHandler_def answerCallbackQuery_def editMessageText_def)

theorem poll_option_validation_witness:
  "parseInt10 ''abc'' = None \<and>
   pollOptionHandler (testEnv (Some pollA)) ''abc'' (freshContext pollSession) =
     \<lparr>session = pollSession,
      effects = [AnswerCallbackQuery, EditMessageText (CROSS_MARK @ '' Invalid option.'') None]\<rparr> \<and>
   parseInt10 ''5'' = Some 5 \<and>
   getPollDataOrError (testEnv (Some pollA)) (answerCallbackQuery (freshContext pollSession)) =
     (Some pollA, \<lparr>session = pollSession, effects = [AnswerCallbackQuery]\<rparr>) \<and>
   int (length (options pollA)) \<le> 5 \<and>
   pollOptionHandler (testEnv (Some pollA)) ''5'' (freshContext pollSession) =
     \<lparr>session = pollSession,
      effects = [AnswerCallbackQuery,
                 EditMessageText
                   (CROSS_MARK @ '' Invalid option number. Please choose between 1 and 2.'')
                   None]\<rparr>"
proof -
  let ?env = "testEnv (Some pollA)"
  let ?ctx = "freshContext pollSession"
  let ?ctx1 = "\<lparr>session = pollSession, effects = [AnswerCallbackQuery]\<rparr>"
  have fetch: "getPollDataOrError ?env (answerCallbackQuery ?ctx) = (Some pollA, ?ctx1)"
    by (simp add: testEnv_def freshContext_def answerCallbackQuery_def)
  have range: "int (length (options pollA)) \<le> 5"
    by (simp add: pollA_def)
  have "pollOptionHandler ?env ''abc'' ?ctx =
          ?ctx\<lparr>effects := effects ?ctx @
                 [AnswerCallbackQuery, EditMessageText (CROSS_MARK @ '' Invalid option.'') None]\<rparr>"
    using poll_option_validation [where data = "''abc''" and env = ?env and ctx = ?ctx]
      parseInt10_abc by blast
  then have nan: "pollOptionHandler ?env ''abc'' ?ctx =
      \<lparr>session = pollSession,
       effects = [AnswerCallbackQuery, EditMessageText (CROSS_MARK @ '' Invalid option.'') None]\<rparr>"
    by (simp add: freshContext_def)
  have "pollOptionHandler ?env ''5'' ?ctx =
          ?ctx1\<lparr>effects := effects ?ctx1 @
                 [EditMessageText
                    (CROSS_MARK @ '' Invalid option number. Please choose between 1 and '' @
                     showNat (length (options pollA)) @ ''.'') None]\<rparr>"
    using poll_option_validation
            [where data = "''5''" and i = 5 and env = ?env and ctx = ?ctx
               and pollData = pollA and ?ctx1.0 = ?ctx1]
      parseInt10_5 fetch range by blast
  moreover have "length (options pollA) = 2"
    by (simp add: pollA_def)
  ultimately have out: "pollOptionHandler ?env ''5'' ?ctx =
      \<lparr>session = pollSession,
       effects = [AnswerCallbackQuery,
                  EditMessageText
                    (CROSS_MARK @ '' Invalid option number. Please choose between 1 and 2.'')
                    None]\<rparr>"
    by (simp add: showNat_2)
  from nan out fetch range parseInt10_abc parseInt10_5 show ?thesis
    by simp
qed

text \<open>
  C5.  When the index is in range and the option has no voters (no entry in
  \<open>votes\<close>, or an empty set), the handler answers through \<open>replyErrorAndReset\<close> with
  the message that no voters were found; the session is then the initial one.
\<close>

theorem poll_option_no_voters:
  assumes "parseInt10 data = Some i"
    and "getPollDataOrError env (answerCallbackQuery ctx) = (Some pollData, ctx1)"
    and "0 \<le> i" and "i < int (length (options pollData))"
    and "votes pollData i = None \<or> votes pollData i = Some []"
  shows "pollOptionHandler env data ctx =
           ctx1\<lparr>session := initialSession,
                effects := effects ctx1 @
                  [Reply (CROSS_MARK @ '' No voters found for this option.'')]\<rparr>"
  using assms
  by (auto simp add: pollOptionHandler_def replyErrorAndReset_def resetSession_def)

theorem poll_option_no_voters_witness:
  "parseInt10 ''0'' = Some 0 \<and>
   getPollDataOrError (testEnv (Some pollB)) (answerCallbackQuery (freshContext pollSession)) =
     (Some pollB, \<lparr>session = pollSession, effects = [AnswerCallbackQuery]\<rparr>) \<and>
   (0::int) \<le> 0 \<and> 0 < int (length (options pollB)) \<and> votes pollB 0 = None \<and>
   pollOptionHandler (testEnv (Some pollB)) ''0'' (freshContext pollSession) =
     \<lparr>session = initialSession,
      effects = [AnswerCallbackQuery,
                 Reply (CROSS_MARK @ '' No voters found for this option.'')]\<rparr>"
proof -
  let ?env = "testEnv (Some pollB)"
  let ?ctx = "freshContext pollSession"
  let ?ctx1 = "\<lparr>session = pollSession, effects = [AnswerCallbackQuery]\<rparr>"
  have fetch: "getPollDataOrError ?env (answerCallbackQuery ?ctx) = (Some pollB, ?ctx1)"
    by (simp add: testEnv_def freshContext_def answerCallbackQuery_def)
  have range: "0 < int (length (options pollB))" and none: "votes pollB 0 = None"
    by (simp_all add: pollB_def)
  have "pollOptionHandler ?env ''0'' ?ctx =
          ?ctx1\<lparr>session := initialSession,
                 effects := effects ?ctx1 @
                   [Reply (CROSS_MARK @ '' No voters found for this option.'')]\<rparr>"
    using poll_option_no_voters
            [where data = "''0''" and i = 0 and env = ?env and ctx = ?ctx
               and pollData = pollB and ?ctx1.0 = ?ctx1]
      parseInt10_0 fetch range none by simp
  with parseInt10_0 fetch range none show ?thesis
    by simp
qed

text \<open>
  C6.  When the index is in range and the option has voters, the handler stores
  exactly these voters, in the order of the set, in \<open>usernames\<close>, clears \<open>pollId\<close>
  and \<open>pollQuestion\<close>, reports the selection and enters
  \<open>startColumnDetectionFlow\<close> with that session.
\<close>

theorem poll_option_selected:
  assumes "parseInt10 data = Some i"
    and "getPollDataOrError env (answerCallbackQuery ctx) = (Some pollData, ctx1)"
    and "0 \<le> i" and "i < int (length (options pollData))"
    and "votes pollData i = Some voters" and "voters \<noteq> []"
  shows "pollOptionHandler env data ctx =
           startColumnDetectionFlow env
             (ctx1\<lparr>session := (session ctx1)
                      \<lparr>usernames := Some voters, pollId := None, pollQuestion := None\<rparr>,
                   effects := effects ctx1 @
                     [EditMessageText
                        (CHECK_MARK @ '' Selected option: '' @ DOUBLE_QUOTE @
                         options pollData ! nat i @ DOUBLE_QUOTE @ NEWLINE @
                         TWO_PEOPLE @ '' Attending players: '' @ join voters '' '')
                        None]\<rparr>)"
  using assms
  by (simp add: pollOptionHandler_def editMessageText_def)

theorem poll_option_selected_witness:
  "parseInt10 ''0'' = Some 0 \<and>
   getPollDataOrError (testEnv (Some pollA)) (answerCallbackQuery (freshContext pollSession)) =
     (Some pollA, \<lparr>session = pollSession, effects = [AnswerCallbackQuery]\<rparr>) \<and>
   (0::int) \<le> 0 \<and> 0 < int (length (options pollA)) \<and>
   votes pollA 0 = Some [''alice'', ''bob''] \<and> [''alice'', ''bob''] \<noteq> [] \<and>
   pollOptionHandler (testEnv (Some pollA)) ''0'' (freshContext pollSession) =
     \<lparr>session = (sessionIn awaiting_column_choice)\<lparr>usernames := Some [''alice'', ''bob'']\<rparr>,
      effects = [AnswerCallbackQuery,
                 EditMessageText
                   (CHECK_MARK @ '' Selected option: '' @ DOUBLE_QUOTE @ ''Team A'' @
                    DOUBLE_QUOTE @ NEWLINE @ TWO_PEOPLE @ '' Attending players: alice bob'')
                   None]\<rparr>"
proof -
  let ?env = "testEnv (Some pollA)"
  let ?ctx = "freshContext pollSession"
  let ?ctx1 = "\<lparr>session = pollSession, effects = [AnswerCallbackQuery]\<rparr>"
  have fetch: "getPollDataOrError ?env (answerCallbackQuery ?ctx) = (Some pollA, ?ctx1)"
    by (simp add: testEnv_def freshContext_def answerCallbackQuery_def)
  have range: "0 < int (length (options pollA))"
    and some: "votes pollA 0 = Some [''alice'', ''bob'']"
    and opt: "options pollA ! nat 0 = ''Team A''"
    by (simp_all add: pollA_def)
  have flow: "startColumnDetectionFlow ?env =
                (\<lambda>c. c\<lparr>session := (session c)\<lparr>state := awaiting_column_choice\<rparr>\<rparr>)"
    by (simp add: testEnv_def)
  have "pollOptionHandler ?env ''0'' ?ctx =
          startColumnDetectionFlow ?env
            (?ctx1\<lparr>session := (session ?ctx1)
                     \<lparr>usernames := Some [''alice'', ''bob''], pollId := None,
                      pollQuestion := None\<rparr>,
                  effects := effects ?ctx1 @
                    [EditMessageText
                       (CHECK_MARK @ '' Selected option: '' @ DOUBLE_QUOTE @
                        options pollA ! nat 0 @ DOUBLE_QUOTE @ NEWLINE @
                        TWO_PEOPLE @ '' Attending players: '' @ join [''alice'', ''bob''] '' '')
                       None]\<rparr>)"
    using poll_option_selected
            [where data = "''0''" and i = 0 and env = ?env and ctx = ?ctx
               and pollData = pollA and ?ctx1.0 = ?ctx1 and voters = "[''alice'', ''bob'']"]
      parseInt10_0 fetch range some by simp
  then have "pollOptionHandler ?env ''0'' ?ctx =
     \<lparr>session = (sessionIn awaiting_column_choice)\<lparr>usernames := Some [''alice'', ''bob'']\<rparr>,
      effects = [AnswerCallbackQuery,
                 EditMessageText
                   (CHECK_MARK @ '' Selected option: '' @ DOUBLE_QUOTE @ ''Team A'' @
                    DOUBLE_QUOTE @ NEWLINE @ TWO_PEOPLE @ '' Attending players: alice bob'')
                   None]\<rparr>"
    unfolding flow opt
    by (simp add: pollSession_def sessionIn_def initialSession_def)
  with parseInt10_0 fetch range some show ?thesis
    by simp
qed

text \<open>
  C7, as stated, fails.  On \<open>new:\<close> and on \<open>create:\<close> a session that holds the
  candidates of a disambiguation still holds them afterwards.
\<close>

theorem column_choice_clears_matches_counterexample:
  "columnMatches (session (freshContext choiceSession)) = Some twoMatches \<and>
   columnMatches (session (columnHandler (testEnv None) ''new:D'' (freshContext choiceSession))) =
     Some twoMatches \<and>
   columnMatches (session (columnHandler (testEnv None) ''create:D'' (freshContext choiceSession))) =
     Some twoMatches"
  by (simp add: columnHandler_def freshContext_def choiceSession_def sessionIn_def
      initialSession_def startsWith_def slice_def answerCallbackQuery_def editMessageText_def
      Let_def)

text \<open>
  C7, as amended.  Each of the four actions writes the pair: \<open>use:\<close> and \<open>select:\<close>
  store the column with \<open>isNewColumn\<close> false and go on to
  \<open>proceedWithMetadataCollection\<close>; \<open>new:\<close> and \<open>create:\<close> store it with
  \<open>isNewColumn\<close> true and move to \<open>awaiting_date_name\<close>.  Only \<open>select:\<close> clears
  \<open>columnMatches\<close>; the other three write no other field.
\<close>

theorem column_choice:
  "columnHandler env (''use:'' @ col) ctx =
     proceedWithMetadataCollection env
       (ctx\<lparr>session := (session ctx)\<lparr>targetColumn := Some col, isNewColumn := False\<rparr>,
            effects := effects ctx @
              [AnswerCallbackQuery,
               EditMessageText (CHECK_MARK @ '' Using column '' @ col) None]\<rparr>) \<and>
   columnHandler env (''select:'' @ col) ctx =
     proceedWithMetadataCollection env
       (ctx\<lparr>session := (session ctx)
               \<lparr>targetColumn := Some col, isNewColumn := False, columnMatches := None\<rparr>,
            effects := effects ctx @
              [AnswerCallbackQuery,
               EditMessageText (CHECK_MARK @ '' Selected column '' @ col) None]\<rparr>) \<and>
   columnHandler env (''new:'' @ col) ctx =
     ctx\<lparr>session := (session ctx)
            \<lparr>targetColumn := Some col, isNewColumn := True, state := awaiting_date_name\<rparr>,
         effects := effects ctx @
           [AnswerCallbackQuery,
            EditMessageText
              (CALENDAR @ '' Please provide the date name for column '' @ col @ '' (row 1):'')
              None]\<rparr> \<and>
   columnHandler env (''create:'' @ col) ctx =
     ctx\<lparr>session := (session ctx)
            \<lparr>targetColumn := Some col, isNewColumn := True, state := awaiting_date_name\<rparr>,
         effects := effects ctx @
           [AnswerCallbackQuery,
            EditMessageText
              (CALENDAR @ '' Please provide the date name for column '' @ col @ '' (row 1):'')
              None]\<rparr>"
  by (simp add: columnHandler_def startsWith_def slice_def answerCallbackQuery_def
      editMessageText_def)

text \<open>
  C8, as stated, fails.  A session without \<open>targetColumn\<close> whose \<open>column\<close> is set
  passes the check: the handler writes to that column and resets nothing.
\<close>

theorem override_session_data_lost_counterexample:
  "targetColumn (session (freshContext columnOnlySession)) = None \<and>
   handleOverrideChoice (testEnv None) (freshContext columnOnlySession) True =
     \<lparr>session = columnOnlySession,
      effects = [EditMessageText (CHECK_MARK @ '' Will overwrite existing values'') None,
                 CommitAttendance ''B'' [(''alice'', 3)]]\<rparr>"
  by (simp add: handleOverrideChoice_def freshContext_def columnOnlySession_def sessionIn_def
      initialSession_def truthy_def orElse_def testEnv_def editMessageText_def newMap_def
      skippedNicknames_def)

text \<open>
  C8, as amended.  When the session has neither a non-empty \<open>column\<close> nor a
  non-empty \<open>targetColumn\<close>, or has no \<open>nicknameRowsEntries\<close>, the handler only
  calls \<open>replyErrorAndReset\<close> with the message that the session data are lost and
  that the user is to start over: the session is then the initial one, and no
  collaborator that writes is called, whatever the environment.
\<close>

theorem override_session_data_lost:
  assumes "((column (session ctx) = None \<or> column (session ctx) = Some []) \<and>
            (targetColumn (session ctx) = None \<or> targetColumn (session ctx) = Some [])) \<or>
           nicknameRowsEntries (session ctx) = None"
  shows "handleOverrideChoice env ctx overwrite =
           ctx\<lparr>session := initialSession,
               effects := effects ctx @
                 [Reply (CROSS_MARK @ '' Error: session data lost. Start over with /update'')]\<rparr>"
  using assms
  by (auto simp add: handleOverrideChoice_def truthy_def orElse_def replyErrorAndReset_def
      resetSession_def split: option.splits)

theorem override_session_data_lost_witness:
  "column (session (freshContext noColumnSession)) = None \<and>
   targetColumn (session (freshContext noColumnSession)) = None \<and>
   nicknameRowsEntries (session (freshContext noColumnSession)) = Some [(''alice'', 3)] \<and>
   handleOverrideChoice (testEnv None) (freshContext noColumnSession) False =
     \<lparr>session = initialSession,
      effects = [Reply (CROSS_MARK @ '' Error: session data lost. Start over with /update'')]\<rparr> \<and>
   nicknameRowsEntries (session (freshContext (overrideSession\<lparr>nicknameRowsEntries := None\<rparr>))) = None \<and>
   handleOverrideChoice (testEnv None)
       (freshContext (overrideSession\<lparr>nicknameRowsEntries := None\<rparr>)) True =
     \<lparr>session = initialSession,
      effects = [Reply (CROSS_MARK @ '' Error: session data lost. Start over with /update'')]\<rparr>"
proof -
  have fields: "column (session (freshContext noColumnSession)) = None"
    "targetColumn (session (freshContext noColumnSession)) = None"
    "nicknameRowsEntries (session (freshContext noColumnSession)) = Some [(''alice'', 3)]"
    "nicknameRowsEntries (session (freshContext (overrideSession\<lparr>nicknameRowsEntries := None\<rparr>))) = None"
    by (simp_all add: freshContext_def noColumnSession_def sessionIn_def initialSession_def)
  from fields
    override_session_data_lost
      [where ctx = "freshContext noColumnSession" and env = "testEnv None" and overwrite = False]
    override_session_data_lost
      [where ctx = "freshContext (overrideSession\<lparr>nicknameRowsEntries := None\<rparr>)"
         and env = "testEnv None" and overwrite = True]
  show ?thesis
    by (simp add: freshContext_def)
qed

text \<open>
  C9.  Callback data \<open>yn:\<close> or \<open>col:\<close> whose payload is none of the actions of the
  handler are acknowledged and nothing else: the session is unchanged, no message
  is edited or sent, no collaborator is called.
\<close>

theorem unrecognized_action_noop:
  "(data \<noteq> ''playercount:yes'' \<and> data \<noteq> ''playercount:no'' \<and>
    data \<noteq> ''override:yes'' \<and> data \<noteq> ''override:no'' \<longrightarrow>
      registerCallbackHandlers env (encode YES_NO data) ctx =
        ctx\<lparr>effects := effects ctx @ [AnswerCallbackQuery]\<rparr>) \<and>
   (\<not> startsWith data ''use:'' \<and> \<not> startsWith data ''new:'' \<and>
    \<not> startsWith data ''create:'' \<and> data \<noteq> ''cancel'' \<and>
    \<not> startsWith data ''select:'' \<longrightarrow>
      registerCallbackHandlers env (encode COLUMN data) ctx =
        ctx\<lparr>effects := effects ctx @ [AnswerCallbackQuery]\<rparr>)"
proof -
  have yn: "decode (encode YES_NO data) = Some (YES_NO, data)"
    and col: "decode (encode COLUMN data) = Some (COLUMN, data)"
    by (simp_all add: decode_def encode_def startsWith_def slice_def)
  show ?thesis
    by (simp add: registerCallbackHandlers_def yn col yesNoHandler_def columnHandler_def
        answerCallbackQuery_def)
qed

theorem unrecognized_action_noop_witness:
  "''stale'' \<noteq> ''playercount:yes'' \<and> ''stale'' \<noteq> ''playercount:no'' \<and>
   ''stale'' \<noteq> ''override:yes'' \<and> ''stale'' \<noteq> ''override:no'' \<and>
   registerCallbackHandlers (testEnv None) ''yn:stale'' (freshContext overrideSession) =
     \<lparr>session = overrideSession, effects = [AnswerCallbackQuery]\<rparr> \<and>
   \<not> startsWith ''pick:B'' ''use:'' \<and> \<not> startsWith ''pick:B'' ''new:'' \<and>
   \<not> startsWith ''pick:B'' ''create:'' \<and> ''pick:B'' \<noteq> ''cancel'' \<and>
   \<not> startsWith ''pick:B'' ''select:'' \<and>
   registerCallbackHandlers (testEnv None) ''col:pick:B'' (freshContext choiceSession) =
     \<lparr>session = choiceSession, effects = [AnswerCallbackQuery]\<rparr>"
  using unrecognized_action_noop
          [where data = "''stale''" and env = "testEnv None"
             and ctx = "freshContext overrideSession"]
        unrecognized_action_noop
          [where data = "''pick:B''" and env = "testEnv None"
             and ctx = "freshContext choiceSession"]
  by (simp add: startsWith_def encode_def freshContext_def)

text \<open>
  C10.  On \<open>playercount:no\<close> the yes/no handler acknowledges the press, sets the state
  to \<open>awaiting_player_count\<close> and asks for the count.  It does so for every session:
  nothing is checked, no other field changes, nothing is reset.
\<close>

theorem playercount_no:
  "yesNoHandler env ''playercount:no'' ctx =
     ctx\<lparr>session := (session ctx)\<lparr>state := awaiting_player_count\<rparr>,
         effects := effects ctx @
           [AnswerCallbackQuery, EditMessageText ''How many players attended the match?'' None]\<rparr> \<and>
   registerCallbackHandlers env (encode YES_NO ''playercount:no'') ctx =
     yesNoHandler env ''playercount:no'' ctx"
  by (simp add: registerCallbackHandlers_def decode_def encode_def startsWith_def slice_def
      yesNoHandler_def answerCallbackQuery_def editMessageText_def)

end
